theory Spec2Isabelle
  imports Main
begin

section \<open>Leave management: the approval workflow of \<open>leave_app\<close>\<close>

text \<open>
  The development embeds \<open>leave_app/models.py\<close>, \<open>leave_app/permissions.py\<close> and the
  \<open>LeaveRequestViewSet\<close> of \<open>leave_app/views.py\<close>. The database is passed explicitly:
  every view method takes the database and the authenticated principal and returns the
  database after the call together with the HTTP response.
\<close>

subsection \<open>models.py\<close>

text \<open>
  \<open>User\<close>: the primary key, the \<open>role\<close> column (a character field, so a string) and the
  nullable self-referential foreign key \<open>manager\<close>, kept as the primary key it stores.
  Django compares model instances by primary key, so \<open>a == b\<close> on users is \<open>uid a = uid b\<close>
  and \<open>x.manager == b\<close> is \<open>manager x = Some (uid b)\<close> (a null manager equals no user).
\<close>

record User =
  uid :: nat
  role :: string
  manager :: "nat option"

type_synonym date = "nat \<times> nat \<times> nat"

text \<open>
  \<open>LeaveRequest\<close>: the row without its primary key (the key is the index of the table
  below) and without the two clock-assigned columns \<open>created_at\<close> and \<open>updated_at\<close>.
  \<open>employee\<close> holds the row of the owning user, as the ORM loads it through the
  foreign key.
\<close>

record LeaveRequest =
  employee :: User
  start_date :: date
  end_date :: date
  leave_type :: string
  reason :: string
  status :: string

text \<open>
  \<open>LeaveTransition\<close>: the audit row, without the clock-assigned \<open>timestamp\<close>. The column
  \<open>by\<close> of the source is \<open>by_user\<close> here; it is nullable and stores a user's primary key.
\<close>

record LeaveTransition =
  leave_request :: nat
  action :: string
  by_user :: "nat option"

text \<open>
  The two tables the workflow writes: leave requests by primary key, and the audit rows
  in insertion order.
\<close>

record db =
  leaves :: "nat \<rightharpoonup> LeaveRequest"
  transitions :: "LeaveTransition list"

subsection \<open>Responses\<close>

text \<open>
  A view method returns \<open>Response(serializer.data)\<close> (status 200, the serialized request
  with its nested transitions) or \<open>Response({'detail': msg}, status=code)\<close>; the framework
  turns the exceptions raised while the object is fetched into 404 and 403 responses.
\<close>

datatype api_exception = Http404 | PermissionDenied

datatype response =
    Data LeaveRequest "LeaveTransition list"
  | Detail string nat
  | Error api_exception

fun status_code :: "response \<Rightarrow> nat" where
  "status_code (Data l ts) = 200"
| "status_code (Detail msg code) = code"
| "status_code (Error e) = (case e of Http404 \<Rightarrow> 404 | PermissionDenied \<Rightarrow> 403)"

subsection \<open>permissions.py\<close>

text \<open>
  The permission classes the view set instantiates. A class that does not override
  \<open>has_permission\<close> or \<open>has_object_permission\<close> inherits the base class's \<open>True\<close>.
  The caller is an authenticated principal throughout, so \<open>IsAuthenticated\<close> holds.
\<close>

datatype permission = IsOwnerOrReadOnly | IsManagerOfEmployee | IsHR | IsAuthenticated

fun has_permission :: "permission \<Rightarrow> User \<Rightarrow> bool" where
  "has_permission IsHR user = (role user = ''hr'')"
| "has_permission IsOwnerOrReadOnly user = True"
| "has_permission IsManagerOfEmployee user = True"
| "has_permission IsAuthenticated user = True"

fun has_object_permission :: "permission \<Rightarrow> User \<Rightarrow> LeaveRequest \<Rightarrow> bool" where
  "has_object_permission IsOwnerOrReadOnly user obj =
     (uid (employee obj) = uid user \<or> role user = ''hr'')"
| "has_object_permission IsManagerOfEmployee user obj =
     (manager (employee obj) = Some (uid user) \<or> role user = ''hr'')"
| "has_object_permission IsHR user obj = True"
| "has_object_permission IsAuthenticated user obj = True"

subsection \<open>views.py: queryset, permissions, object lookup\<close>

definition filter_rows :: "(LeaveRequest \<Rightarrow> bool) \<Rightarrow> (nat \<rightharpoonup> LeaveRequest) \<Rightarrow> (nat \<rightharpoonup> LeaveRequest)" where
  "filter_rows P tbl =
     (\<lambda>pk. case tbl pk of None \<Rightarrow> None | Some l \<Rightarrow> if P l then Some l else None)"

definition get_queryset :: "db \<Rightarrow> User \<Rightarrow> (nat \<rightharpoonup> LeaveRequest)" where
  "get_queryset st user =
     (if role user = ''hr'' then leaves st
      else if role user = ''manager'' then
        filter_rows (\<lambda>l. manager (employee l) = Some (uid user) \<or> uid (employee l) = uid user)
          (leaves st)
      else filter_rows (\<lambda>l. uid (employee l) = uid user) (leaves st))"

definition get_permissions :: "User \<Rightarrow> string \<Rightarrow> permission list" where
  "get_permissions user act =
     (if act \<in> set [''update'', ''partial_update'', ''destroy'', ''cancel'']
      then [IsOwnerOrReadOnly]
      else if act \<in> set [''approve'', ''reject''] then
        (if role user = ''manager'' then [IsManagerOfEmployee]
         else if role user = ''hr'' then [IsHR]
         else [IsAuthenticated])
      else [IsAuthenticated])"

text \<open>
  The framework's part of a request: \<open>check_permissions\<close> runs before the view method,
  and \<open>get_object\<close> looks the primary key up in the caller's queryset (404 when it is
  not there) and then runs the object-level checks (403 when one fails).
\<close>

definition check_permissions :: "User \<Rightarrow> string \<Rightarrow> bool" where
  "check_permissions user act = list_all (\<lambda>p. has_permission p user) (get_permissions user act)"

definition get_object :: "db \<Rightarrow> User \<Rightarrow> string \<Rightarrow> nat \<Rightarrow> api_exception + LeaveRequest" where
  "get_object st user act pk =
     (case get_queryset st user pk of
        None \<Rightarrow> Inl Http404
      | Some obj \<Rightarrow>
          if list_all (\<lambda>p. has_object_permission p user obj) (get_permissions user act)
          then Inr obj else Inl PermissionDenied)"

subsection \<open>views.py: the four transitions\<close>

definition save :: "db \<Rightarrow> nat \<Rightarrow> LeaveRequest \<Rightarrow> db" where
  "save st pk leave = st\<lparr>leaves := (leaves st)(pk \<mapsto> leave)\<rparr>"

definition create_transition :: "db \<Rightarrow> nat \<Rightarrow> string \<Rightarrow> User \<Rightarrow> db" where
  "create_transition st pk act user =
     st\<lparr>transitions := transitions st @
           [\<lparr>leave_request = pk, action = act, by_user = Some (uid user)\<rparr>]\<rparr>"

definition serializer_data :: "db \<Rightarrow> nat \<Rightarrow> LeaveRequest \<Rightarrow> response" where
  "serializer_data st pk leave =
     Data leave (filter (\<lambda>t. leave_request t = pk) (transitions st))"

definition submit :: "db \<Rightarrow> User \<Rightarrow> nat \<Rightarrow> db \<times> response" where
  "submit st user pk =
     (case get_object st user ''submit'' pk of
        Inl e \<Rightarrow> (st, Error e)
      | Inr leave \<Rightarrow>
          if status leave \<noteq> ''draft''
          then (st, Detail ''Can only submit draft requests.'' 400)
          else
            let leave = leave\<lparr>status := ''submitted''\<rparr>;
                st = save st pk leave;
                st = create_transition st pk ''submitted'' user
            in (st, serializer_data st pk leave))"

definition approve :: "db \<Rightarrow> User \<Rightarrow> nat \<Rightarrow> db \<times> response" where
  "approve st user pk =
     (case get_object st user ''approve'' pk of
        Inl e \<Rightarrow> (st, Error e)
      | Inr leave \<Rightarrow>
          if status leave = ''submitted'' then
            (if role user = ''manager'' \<and> manager (employee leave) = Some (uid user) then
               let leave = leave\<lparr>status := ''approved_manager''\<rparr>;
                   st = save st pk leave;
                   st = create_transition st pk ''approved by manager'' user
               in (st, serializer_data st pk leave)
             else if role user = ''hr'' then
               let leave = leave\<lparr>status := ''approved_hr''\<rparr>;
                   st = save st pk leave;
                   st = create_transition st pk ''approved by HR'' user
               in (st, serializer_data st pk leave)
             else (st, Detail ''Not allowed.'' 403))
          else if status leave = ''approved_manager'' \<and> role user = ''hr'' then
            let leave = leave\<lparr>status := ''approved_hr''\<rparr>;
                st = save st pk leave;
                st = create_transition st pk ''approved by HR'' user
            in (st, serializer_data st pk leave)
          else (st, Detail ''Invalid status for approval.'' 400))"

definition reject :: "db \<Rightarrow> User \<Rightarrow> nat \<Rightarrow> db \<times> response" where
  "reject st user pk =
     (case get_object st user ''reject'' pk of
        Inl e \<Rightarrow> (st, Error e)
      | Inr leave \<Rightarrow>
          if status leave \<in> set [''submitted'', ''approved_manager'']
             \<and> role user \<in> set [''manager'', ''hr'']
          then
            let leave = leave\<lparr>status := ''rejected''\<rparr>;
                st = save st pk leave;
                st = create_transition st pk ''rejected'' user
            in (st, serializer_data st pk leave)
          else (st, Detail ''Invalid status or permission for rejection.'' 400))"

definition cancel :: "db \<Rightarrow> User \<Rightarrow> nat \<Rightarrow> db \<times> response" where
  "cancel st user pk =
     (case get_object st user ''cancel'' pk of
        Inl e \<Rightarrow> (st, Error e)
      | Inr leave \<Rightarrow>
          if status leave \<notin> set [''approved_hr'', ''rejected'', ''cancelled'']
             \<and> uid (employee leave) = uid user
          then
            let leave = leave\<lparr>status := ''cancelled''\<rparr>;
                st = save st pk leave;
                st = create_transition st pk ''cancelled'' user
            in (st, serializer_data st pk leave)
          else (st, Detail ''Cannot cancel this request.'' 400))"

text \<open>
  One POST to \<open>/leaves/{pk}/submit\<close>, \<open>approve\<close>, \<open>reject\<close> or \<open>cancel\<close>: the permission
  check of the framework, then the view method of that name.
\<close>

datatype transition = Submit | Approve | Reject | Cancel

fun action_name :: "transition \<Rightarrow> string" where
  "action_name Submit = ''submit''"
| "action_name Approve = ''approve''"
| "action_name Reject = ''reject''"
| "action_name Cancel = ''cancel''"

definition dispatch :: "db \<Rightarrow> User \<Rightarrow> transition \<Rightarrow> nat \<Rightarrow> db \<times> response" where
  "dispatch st user a pk =
     (if \<not> check_permissions user (action_name a) then (st, Error PermissionDenied)
      else case a of
          Submit \<Rightarrow> submit st user pk
        | Approve \<Rightarrow> approve st user pk
        | Reject \<Rightarrow> reject st user pk
        | Cancel \<Rightarrow> cancel st user pk)"

text \<open>A sequence of calls, each on the database the previous one left.\<close>

fun run :: "db \<Rightarrow> (User \<times> transition \<times> nat) list \<Rightarrow> db" where
  "run st [] = st"
| "run st ((user, a, pk) # calls) = run (fst (dispatch st user a pk)) calls"

subsection \<open>The transition table of the specification\<close>

text \<open>
  The table of the specification, row by row: for an action, the current status, the
  caller and the owning employee, the new status and the audit label of the row that
  applies, if one does. The row of \<open>submit\<close> has no caller condition of its own (the
  specification leaves it to the access control).
\<close>

fun spec_table :: "transition \<Rightarrow> string \<Rightarrow> User \<Rightarrow> User \<Rightarrow> (string \<times> string) option" where
  "spec_table Submit s caller owner =
     (if s = ''draft'' then Some (''submitted'', ''submitted'') else None)"
| "spec_table Approve s caller owner =
     (if s = ''submitted'' \<and> role caller = ''manager'' \<and> manager owner = Some (uid caller)
      then Some (''approved_manager'', ''approved by manager'')
      else if s = ''submitted'' \<and> role caller = ''hr''
      then Some (''approved_hr'', ''approved by HR'')
      else if s = ''approved_manager'' \<and> role caller = ''hr''
      then Some (''approved_hr'', ''approved by HR'')
      else None)"
| "spec_table Reject s caller owner =
     (if (s = ''submitted'' \<or> s = ''approved_manager'')
         \<and> (role caller = ''manager'' \<or> role caller = ''hr'')
      then Some (''rejected'', ''rejected'') else None)"
| "spec_table Cancel s caller owner =
     (if s \<noteq> ''approved_hr'' \<and> s \<noteq> ''rejected'' \<and> s \<noteq> ''cancelled'' \<and> uid caller = uid owner
      then Some (''cancelled'', ''cancelled'') else None)"

subsection \<open>What a successful transition leaves behind\<close>

text \<open>
  \<open>succeeded st user pk leave ns lbl r\<close>: the result \<open>r\<close> of a call on the database \<open>st\<close>
  stored the request \<open>leave\<close> under \<open>pk\<close> with status \<open>ns\<close>, appended the one audit row
  \<open>(pk, lbl, user)\<close> and answered with the serialized request.
\<close>

definition succeeded ::
  "db \<Rightarrow> User \<Rightarrow> nat \<Rightarrow> LeaveRequest \<Rightarrow> string \<Rightarrow> string \<Rightarrow> db \<times> response \<Rightarrow> bool" where
  "succeeded st user pk leave ns lbl r =
     (leaves (fst r) = (leaves st)(pk \<mapsto> leave\<lparr>status := ns\<rparr>)
      \<and> transitions (fst r) =
          transitions st @ [\<lparr>leave_request = pk, action = lbl, by_user = Some (uid user)\<rparr>]
      \<and> snd r = Data (leave\<lparr>status := ns\<rparr>)
                  (filter (\<lambda>t. leave_request t = pk) (transitions (fst r))))"

subsection \<open>The users and the request of tests.py\<close>

definition hr :: User where
  "hr = \<lparr>uid = 1, role = ''hr'', manager = None\<rparr>"

definition mgr :: User where
  "mgr = \<lparr>uid = 2, role = ''manager'', manager = None\<rparr>"

definition emp :: User where
  "emp = \<lparr>uid = 3, role = ''employee'', manager = Some 2\<rparr>"

definition other_mgr :: User where
  "other_mgr = \<lparr>uid = 4, role = ''manager'', manager = None\<rparr>"

definition other_emp :: User where
  "other_emp = \<lparr>uid = 5, role = ''employee'', manager = Some 4\<rparr>"

definition leave_in :: "string \<Rightarrow> LeaveRequest" where
  "leave_in s = \<lparr>employee = emp, start_date = (2025, 7, 10), end_date = (2025, 7, 12),
                 leave_type = ''CL'', reason = ''Vacation'', status = s\<rparr>"

definition db_in :: "string \<Rightarrow> db" where
  "db_in s = \<lparr>leaves = [1 \<mapsto> leave_in s], transitions = []\<rparr>"

subsection \<open>A request of the manager's own\<close>

text \<open>
  The manager of the tests has no manager; this is a request that manager owns.
\<close>

definition own_leave_in :: "string \<Rightarrow> LeaveRequest" where
  "own_leave_in s = \<lparr>employee = mgr, start_date = (2025, 8, 4), end_date = (2025, 8, 8),
                     leave_type = ''PL'', reason = ''Family'', status = s\<rparr>"

definition own_db_in :: "string \<Rightarrow> db" where
  "own_db_in s = \<lparr>leaves = [2 \<mapsto> own_leave_in s], transitions = []\<rparr>"

section \<open>Properties\<close>

subsection \<open>The layers in front of the view methods\<close>

lemmas layer_defs = get_permissions_def get_object_def get_queryset_def filter_rows_def
lemmas write_defs = save_def create_transition_def serializer_data_def Let_def
lemmas fixture_defs = db_in_def leave_in_def hr_def mgr_def emp_def other_mgr_def other_emp_def

lemma check_permissions_holds: "check_permissions user act"
  by (simp add: check_permissions_def get_permissions_def)

lemma dispatch_method:
  "dispatch st user a pk =
     (case a of Submit \<Rightarrow> submit st user pk | Approve \<Rightarrow> approve st user pk
      | Reject \<Rightarrow> reject st user pk | Cancel \<Rightarrow> cancel st user pk)"
  by (simp add: dispatch_def check_permissions_holds)

lemma get_object_row: "get_object st user act pk = Inr leave \<Longrightarrow> leaves st pk = Some leave"
  by (auto simp: layer_defs split: option.splits if_splits)

lemma get_object_hr:
  "role user = ''hr'' \<Longrightarrow> leaves st pk = Some leave \<Longrightarrow> get_object st user act pk = Inr leave"
  by (simp add: layer_defs)

lemma get_object_manager_of:
  "role user = ''manager'' \<Longrightarrow> manager (employee leave) = Some (uid user) \<Longrightarrow>
   leaves st pk = Some leave \<Longrightarrow> act \<in> {''approve'', ''reject''} \<Longrightarrow>
   get_object st user act pk = Inr leave"
  by (auto simp: layer_defs)

subsection \<open>approve\<close>

text \<open>
  C1. An approve call on a stored request: from \<open>submitted\<close>, a caller with role manager
  who is the owning employee's manager moves it to \<open>approved_manager\<close> with the audit
  label "approved by manager"; from \<open>submitted\<close>, a caller with role hr moves it to
  \<open>approved_hr\<close> with the label "approved by HR"; from \<open>approved_manager\<close>, a caller with
  role hr moves it to \<open>approved_hr\<close> with the label "approved by HR". The \<open>submitted\<close>
  branch comes first and is closed: a caller who reaches it and is neither that manager
  nor hr gets 403 "Not allowed." there and never falls through to the later branch.
\<close>

theorem approve_branches:
  assumes "leaves st pk = Some leave"
  shows "(status leave = ''submitted'' \<and> role user = ''manager''
            \<and> manager (employee leave) = Some (uid user) \<longrightarrow>
          succeeded st user pk leave ''approved_manager'' ''approved by manager''
            (dispatch st user Approve pk))
       \<and> (status leave = ''submitted'' \<and> role user = ''hr'' \<longrightarrow>
          succeeded st user pk leave ''approved_hr'' ''approved by HR''
            (dispatch st user Approve pk))
       \<and> (status leave = ''approved_manager'' \<and> role user = ''hr'' \<longrightarrow>
          succeeded st user pk leave ''approved_hr'' ''approved by HR''
            (dispatch st user Approve pk))
       \<and> (status leave = ''submitted'' \<and> get_object st user ''approve'' pk = Inr leave
            \<and> \<not> (role user = ''manager'' \<and> manager (employee leave) = Some (uid user))
            \<and> role user \<noteq> ''hr'' \<longrightarrow>
          dispatch st user Approve pk = (st, Detail ''Not allowed.'' 403))"
proof (intro conjI impI)
  assume h: "status leave = ''submitted'' \<and> role user = ''manager''
    \<and> manager (employee leave) = Some (uid user)"
  then have "get_object st user ''approve'' pk = Inr leave"
    using assms by (simp add: get_object_manager_of)
  with h show "succeeded st user pk leave ''approved_manager'' ''approved by manager''
      (dispatch st user Approve pk)"
    by (simp add: dispatch_method approve_def succeeded_def write_defs)
next
  assume h: "status leave = ''submitted'' \<and> role user = ''hr''"
  then have "get_object st user ''approve'' pk = Inr leave"
    using assms by (simp add: get_object_hr)
  with h show "succeeded st user pk leave ''approved_hr'' ''approved by HR''
      (dispatch st user Approve pk)"
    by (simp add: dispatch_method approve_def succeeded_def write_defs)
next
  assume h: "status leave = ''approved_manager'' \<and> role user = ''hr''"
  then have "get_object st user ''approve'' pk = Inr leave"
    using assms by (simp add: get_object_hr)
  with h show "succeeded st user pk leave ''approved_hr'' ''approved by HR''
      (dispatch st user Approve pk)"
    by (simp add: dispatch_method approve_def succeeded_def write_defs)
next
  assume "status leave = ''submitted'' \<and> get_object st user ''approve'' pk = Inr leave
    \<and> \<not> (role user = ''manager'' \<and> manager (employee leave) = Some (uid user))
    \<and> role user \<noteq> ''hr''"
  then show "dispatch st user Approve pk = (st, Detail ''Not allowed.'' 403)"
    by (auto simp: dispatch_method approve_def)
qed

theorem approve_branches_witness:
  "succeeded (db_in ''submitted'') mgr 1 (leave_in ''submitted'') ''approved_manager''
     ''approved by manager'' (dispatch (db_in ''submitted'') mgr Approve 1)
   \<and> succeeded (db_in ''submitted'') hr 1 (leave_in ''submitted'') ''approved_hr''
     ''approved by HR'' (dispatch (db_in ''submitted'') hr Approve 1)
   \<and> succeeded (db_in ''approved_manager'') hr 1 (leave_in ''approved_manager'') ''approved_hr''
     ''approved by HR'' (dispatch (db_in ''approved_manager'') hr Approve 1)
   \<and> dispatch (db_in ''submitted'') emp Approve 1 = (db_in ''submitted'', Detail ''Not allowed.'' 403)"
  using approve_branches [of "db_in ''submitted''" 1 "leave_in ''submitted''" mgr]
    approve_branches [of "db_in ''submitted''" 1 "leave_in ''submitted''" hr]
    approve_branches [of "db_in ''approved_manager''" 1 "leave_in ''approved_manager''" hr]
    approve_branches [of "db_in ''submitted''" 1 "leave_in ''submitted''" emp]
  by (simp add: layer_defs fixture_defs)

subsection \<open>The outcome of a call\<close>

text \<open>
  Each view method either applies the row of the specification's table for the request
  it fetched, or returns the database unchanged with a 400, 403 or 404 response.
\<close>

lemma succeeded_200: "succeeded st user pk leave ns lbl r \<Longrightarrow> status_code (snd r) = 200"
  by (simp add: succeeded_def)

lemma submit_outcome:
  "(\<exists>leave ns lbl. get_object st user ''submit'' pk = Inr leave
      \<and> spec_table Submit (status leave) user (employee leave) = Some (ns, lbl)
      \<and> succeeded st user pk leave ns lbl (submit st user pk))
   \<or> (fst (submit st user pk) = st \<and> status_code (snd (submit st user pk)) \<in> {400, 403, 404})"
  by (cases "get_object st user ''submit'' pk")
     (auto simp: submit_def succeeded_def write_defs split: api_exception.splits)

lemma approve_outcome:
  "(\<exists>leave ns lbl. get_object st user ''approve'' pk = Inr leave
      \<and> spec_table Approve (status leave) user (employee leave) = Some (ns, lbl)
      \<and> succeeded st user pk leave ns lbl (approve st user pk))
   \<or> (fst (approve st user pk) = st \<and> status_code (snd (approve st user pk)) \<in> {400, 403, 404})"
  by (cases "get_object st user ''approve'' pk")
     (auto simp: approve_def succeeded_def write_defs split: api_exception.splits)

lemma reject_outcome:
  "(\<exists>leave ns lbl. get_object st user ''reject'' pk = Inr leave
      \<and> spec_table Reject (status leave) user (employee leave) = Some (ns, lbl)
      \<and> succeeded st user pk leave ns lbl (reject st user pk))
   \<or> (fst (reject st user pk) = st \<and> status_code (snd (reject st user pk)) \<in> {400, 403, 404})"
  by (cases "get_object st user ''reject'' pk")
     (auto simp: reject_def succeeded_def write_defs split: api_exception.splits)

lemma cancel_outcome:
  "(\<exists>leave ns lbl. get_object st user ''cancel'' pk = Inr leave
      \<and> spec_table Cancel (status leave) user (employee leave) = Some (ns, lbl)
      \<and> succeeded st user pk leave ns lbl (cancel st user pk))
   \<or> (fst (cancel st user pk) = st \<and> status_code (snd (cancel st user pk)) \<in> {400, 403, 404})"
  by (cases "get_object st user ''cancel'' pk")
     (auto simp: cancel_def succeeded_def write_defs split: api_exception.splits)

lemma dispatch_outcome:
  "(\<exists>leave ns lbl. get_object st user (action_name a) pk = Inr leave
      \<and> spec_table a (status leave) user (employee leave) = Some (ns, lbl)
      \<and> succeeded st user pk leave ns lbl (dispatch st user a pk))
   \<or> (fst (dispatch st user a pk) = st
       \<and> status_code (snd (dispatch st user a pk)) \<in> {400, 403, 404})"
proof (cases a)
  case Submit
  then show ?thesis using submit_outcome [of st user pk] by (simp add: dispatch_method)
next
  case Approve
  then show ?thesis using approve_outcome [of st user pk] by (simp add: dispatch_method)
next
  case Reject
  then show ?thesis using reject_outcome [of st user pk] by (simp add: dispatch_method)
next
  case Cancel
  then show ?thesis using cancel_outcome [of st user pk] by (simp add: dispatch_method)
qed

subsection \<open>Every transition is audited, every failure leaves no trace\<close>

text \<open>
  C2. A transition attempt (submit, approve, reject or cancel) that succeeds stores the
  request with the new status of the specification's table and appends exactly one audit
  row referencing that request; an attempt that fails, with whatever error, returns the
  database it was given: the status is unchanged and no audit row is added.
\<close>

theorem transition_audited_or_nothing:
  "(status_code (snd (dispatch st user a pk)) = 200 \<longrightarrow>
      (\<exists>leave ns lbl. leaves st pk = Some leave
         \<and> spec_table a (status leave) user (employee leave) = Some (ns, lbl)
         \<and> leaves (fst (dispatch st user a pk)) = (leaves st)(pk \<mapsto> leave\<lparr>status := ns\<rparr>)
         \<and> transitions (fst (dispatch st user a pk)) =
             transitions st @ [\<lparr>leave_request = pk, action = lbl, by_user = Some (uid user)\<rparr>]))
   \<and> (status_code (snd (dispatch st user a pk)) \<noteq> 200 \<longrightarrow> fst (dispatch st user a pk) = st)"
proof -
  from dispatch_outcome [of st user a pk] show ?thesis
  proof
    assume "\<exists>leave ns lbl. get_object st user (action_name a) pk = Inr leave
      \<and> spec_table a (status leave) user (employee leave) = Some (ns, lbl)
      \<and> succeeded st user pk leave ns lbl (dispatch st user a pk)"
    then obtain leave ns lbl where
      g: "get_object st user (action_name a) pk = Inr leave" and
      t: "spec_table a (status leave) user (employee leave) = Some (ns, lbl)" and
      s: "succeeded st user pk leave ns lbl (dispatch st user a pk)"
      by blast
    from g have "leaves st pk = Some leave" by (rule get_object_row)
    moreover from s have "status_code (snd (dispatch st user a pk)) = 200"
      by (rule succeeded_200)
    ultimately show ?thesis using t s unfolding succeeded_def by blast
  next
    assume "fst (dispatch st user a pk) = st
      \<and> status_code (snd (dispatch st user a pk)) \<in> {400, 403, 404}"
    then show ?thesis by auto
  qed
qed

theorem transition_audited_or_nothing_witness:
  "status_code (snd (dispatch (db_in ''draft'') emp Submit 1)) = 200
   \<and> leaves (fst (dispatch (db_in ''draft'') emp Submit 1)) 1 = Some (leave_in ''submitted'')
   \<and> transitions (fst (dispatch (db_in ''draft'') emp Submit 1)) =
       [\<lparr>leave_request = 1, action = ''submitted'', by_user = Some 3\<rparr>]
   \<and> status_code (snd (dispatch (db_in ''approved_hr'') emp Cancel 1)) \<noteq> 200
   \<and> fst (dispatch (db_in ''approved_hr'') emp Cancel 1) = db_in ''approved_hr''"
  using transition_audited_or_nothing [of "db_in ''draft''" emp Submit 1]
    transition_audited_or_nothing [of "db_in ''approved_hr''" emp Cancel 1]
  by (simp add: dispatch_method submit_def cancel_def layer_defs write_defs fixture_defs)

subsection \<open>Terminal statuses\<close>

lemma spec_table_terminal:
  "s \<in> {''approved_hr'', ''rejected'', ''cancelled''} \<Longrightarrow> spec_table a s caller owner = None"
  by (cases a) auto

lemma terminal_call:
  assumes "leaves st pk = Some leave"
    and "status leave \<in> {''approved_hr'', ''rejected'', ''cancelled''}"
  shows "fst (dispatch st user a pk) = st \<and> status_code (snd (dispatch st user a pk)) \<noteq> 200"
proof -
  from dispatch_outcome [of st user a pk] show ?thesis
  proof
    assume "\<exists>l ns lbl. get_object st user (action_name a) pk = Inr l
      \<and> spec_table a (status l) user (employee l) = Some (ns, lbl)
      \<and> succeeded st user pk l ns lbl (dispatch st user a pk)"
    then obtain l ns lbl where
      g: "get_object st user (action_name a) pk = Inr l" and
      t: "spec_table a (status l) user (employee l) = Some (ns, lbl)"
      by blast
    from g assms(1) have "l = leave" by (simp add: get_object_row)
    with t assms(2) show ?thesis by (simp add: spec_table_terminal)
  next
    assume "fst (dispatch st user a pk) = st
      \<and> status_code (snd (dispatch st user a pk)) \<in> {400, 403, 404}"
    then show ?thesis by auto
  qed
qed

lemma other_row_kept:
  assumes "k \<noteq> pk"
  shows "leaves (fst (dispatch st user a k)) pk = leaves st pk"
proof -
  from dispatch_outcome [of st user a k] show ?thesis
  proof
    assume "\<exists>l ns lbl. get_object st user (action_name a) k = Inr l
      \<and> spec_table a (status l) user (employee l) = Some (ns, lbl)
      \<and> succeeded st user k l ns lbl (dispatch st user a k)"
    then show ?thesis using assms by (auto simp: succeeded_def)
  next
    assume "fst (dispatch st user a k) = st
      \<and> status_code (snd (dispatch st user a k)) \<in> {400, 403, 404}"
    then show ?thesis by simp
  qed
qed

lemma terminal_row_kept:
  assumes "leaves st pk = Some leave"
    and "status leave \<in> {''approved_hr'', ''rejected'', ''cancelled''}"
  shows "leaves (fst (dispatch st user a k)) pk = Some leave"
proof (cases "k = pk")
  case True
  then show ?thesis using terminal_call [OF assms, of user a] assms(1) by simp
next
  case False
  then show ?thesis using other_row_kept [of k pk st user a] assms(1) by simp
qed

lemma terminal_run_kept:
  "leaves st pk = Some leave \<Longrightarrow>
   status leave \<in> {''approved_hr'', ''rejected'', ''cancelled''} \<Longrightarrow>
   leaves (run st calls) pk = Some leave"
proof (induction calls arbitrary: st)
  case Nil
  then show ?case by simp
next
  case (Cons c calls)
  obtain user a k where c: "c = (user, a, k)" by (cases c) auto
  have "leaves (fst (dispatch st user a k)) pk = Some leave"
    using Cons.prems by (rule terminal_row_kept)
  then have "leaves (run (fst (dispatch st user a k)) calls) pk = Some leave"
    using Cons.prems(2) by (rule Cons.IH)
  then show ?case by (simp add: c)
qed

text \<open>
  C5. Once a request has status \<open>approved_hr\<close>, \<open>rejected\<close> or \<open>cancelled\<close>, no submit,
  approve, reject or cancel call on it by any caller succeeds, and after any sequence of
  such calls (on this or any other request) the stored request is the same.
\<close>

theorem terminal_is_final:
  assumes "leaves st pk = Some leave"
    and "status leave \<in> {''approved_hr'', ''rejected'', ''cancelled''}"
  shows "status_code (snd (dispatch st user a pk)) \<noteq> 200
       \<and> fst (dispatch st user a pk) = st
       \<and> leaves (run st calls) pk = Some leave"
  using terminal_call [OF assms, of user a] terminal_run_kept [OF assms, of calls] by simp

theorem terminal_is_final_witness:
  "status_code (snd (dispatch (db_in ''rejected'') hr Approve 1)) \<noteq> 200
   \<and> fst (dispatch (db_in ''rejected'') hr Approve 1) = db_in ''rejected''
   \<and> leaves (run (db_in ''rejected'')
        [(emp, Submit, 1), (mgr, Approve, 1), (hr, Approve, 1), (hr, Reject, 1), (emp, Cancel, 1)]) 1
       = Some (leave_in ''rejected'')"
  using terminal_is_final [of "db_in ''rejected''" 1 "leave_in ''rejected''" hr Approve
      "[(emp, Submit, 1), (mgr, Approve, 1), (hr, Approve, 1), (hr, Reject, 1), (emp, Cancel, 1)]"]
  by (simp add: fixture_defs)

subsection \<open>submit\<close>

text \<open>
  C6. A submit call on a request the caller can see: from \<open>draft\<close> the status becomes
  \<open>submitted\<close> and one "submitted" audit row is appended; from any other status the call
  fails with the status error (400) and the database is unchanged.
\<close>

theorem submit_from_draft_only:
  assumes "get_queryset st user pk = Some leave"
  shows "(status leave = ''draft'' \<longrightarrow>
            succeeded st user pk leave ''submitted'' ''submitted'' (dispatch st user Submit pk))
       \<and> (status leave \<noteq> ''draft'' \<longrightarrow>
            dispatch st user Submit pk = (st, Detail ''Can only submit draft requests.'' 400))"
proof -
  have "get_object st user ''submit'' pk = Inr leave"
    using assms by (simp add: get_object_def get_permissions_def)
  then show ?thesis
    by (simp add: dispatch_method submit_def succeeded_def write_defs)
qed

theorem submit_from_draft_only_witness:
  "succeeded (db_in ''draft'') emp 1 (leave_in ''draft'') ''submitted'' ''submitted''
     (dispatch (db_in ''draft'') emp Submit 1)
   \<and> dispatch (db_in ''submitted'') emp Submit 1 =
       (db_in ''submitted'', Detail ''Can only submit draft requests.'' 400)"
  using submit_from_draft_only [of "db_in ''draft''" emp 1 "leave_in ''draft''"]
    submit_from_draft_only [of "db_in ''submitted''" emp 1 "leave_in ''submitted''"]
  by (simp add: get_queryset_def filter_rows_def fixture_defs)

subsection \<open>reject\<close>

lemma get_object_reject_manager_not_of:
  "leaves st pk = Some leave \<Longrightarrow> role user = ''manager'' \<Longrightarrow>
   manager (employee leave) \<noteq> Some (uid user) \<Longrightarrow>
   get_object st user ''reject'' pk =
     Inl (if uid (employee leave) = uid user then PermissionDenied else Http404)"
  by (simp add: layer_defs)

lemma get_object_reject_owner:
  "leaves st pk = Some leave \<Longrightarrow> role user \<noteq> ''manager'' \<Longrightarrow> role user \<noteq> ''hr'' \<Longrightarrow>
   uid (employee leave) = uid user \<Longrightarrow> get_object st user ''reject'' pk = Inr leave"
  by (simp add: layer_defs)

lemma get_object_reject_stranger:
  "leaves st pk = Some leave \<Longrightarrow> role user \<noteq> ''manager'' \<Longrightarrow> role user \<noteq> ''hr'' \<Longrightarrow>
   uid (employee leave) \<noteq> uid user \<Longrightarrow> get_object st user ''reject'' pk = Inl Http404"
  by (simp add: layer_defs)

lemma reject_reached_wrong_status:
  "get_object st user ''reject'' pk = Inr leave \<Longrightarrow>
   status leave \<in> {''draft'', ''approved_hr'', ''cancelled''} \<Longrightarrow>
   dispatch st user Reject pk = (st, Detail ''Invalid status or permission for rejection.'' 400)"
  by (auto simp: dispatch_method reject_def)

text \<open>
  C8, as claimed, fails: role manager is not enough. A manager with no manager of their
  own rejects the own submitted request and is answered 403 by \<open>IsManagerOfEmployee\<close>;
  the manager of another team rejects the employee's submitted request and is answered
  404. In both cases the request stays \<open>submitted\<close>.
\<close>

theorem reject_by_other_manager_counterexample:
  "role mgr = ''manager''
   \<and> leaves (own_db_in ''submitted'') 2 = Some (own_leave_in ''submitted'')
   \<and> status (own_leave_in ''submitted'') = ''submitted''
   \<and> dispatch (own_db_in ''submitted'') mgr Reject 2 =
       (own_db_in ''submitted'', Error PermissionDenied)
   \<and> role other_mgr = ''manager''
   \<and> leaves (db_in ''submitted'') 1 = Some (leave_in ''submitted'')
   \<and> status (leave_in ''submitted'') = ''submitted''
   \<and> dispatch (db_in ''submitted'') other_mgr Reject 1 = (db_in ''submitted'', Error Http404)"
  by (simp add: dispatch_method reject_def layer_defs fixture_defs own_db_in_def own_leave_in_def)

text \<open>
  C8, amended. A reject call on a stored request: from \<open>submitted\<close> or \<open>approved_manager\<close>,
  a caller with role hr, or with role manager who is the owning employee's manager, moves
  the request to \<open>rejected\<close> and one "rejected" audit row is appended. A caller with role
  manager who is not the owning employee's manager is refused before the view's decision,
  with 403 on the caller's own request and 404 otherwise, and the database is unchanged.
  On a request in \<open>draft\<close>, \<open>approved_hr\<close> or \<open>cancelled\<close>, a call that reaches the view's
  decision (the caller has role hr, or role manager and is the owner's manager, or another
  role and is the owner) fails with the status error (400) and the database is unchanged;
  a caller of another role who is not the owner is answered 404.
\<close>

theorem reject_outcomes:
  assumes "leaves st pk = Some leave"
  shows "(status leave \<in> {''submitted'', ''approved_manager''}
            \<and> (role user = ''hr''
                \<or> role user = ''manager'' \<and> manager (employee leave) = Some (uid user)) \<longrightarrow>
          succeeded st user pk leave ''rejected'' ''rejected'' (dispatch st user Reject pk))
       \<and> (role user = ''manager'' \<and> manager (employee leave) \<noteq> Some (uid user) \<longrightarrow>
          dispatch st user Reject pk =
            (st, Error (if uid (employee leave) = uid user then PermissionDenied else Http404)))
       \<and> (status leave \<in> {''draft'', ''approved_hr'', ''cancelled''}
            \<and> (role user = ''hr''
                \<or> role user = ''manager'' \<and> manager (employee leave) = Some (uid user)
                \<or> role user \<noteq> ''manager'' \<and> role user \<noteq> ''hr''
                    \<and> uid (employee leave) = uid user) \<longrightarrow>
          dispatch st user Reject pk =
            (st, Detail ''Invalid status or permission for rejection.'' 400))
       \<and> (role user \<noteq> ''manager'' \<and> role user \<noteq> ''hr''
            \<and> uid (employee leave) \<noteq> uid user \<longrightarrow>
          dispatch st user Reject pk = (st, Error Http404))"
proof (intro conjI impI)
  assume h: "status leave \<in> {''submitted'', ''approved_manager''}
    \<and> (role user = ''hr''
        \<or> role user = ''manager'' \<and> manager (employee leave) = Some (uid user))"
  then have "get_object st user ''reject'' pk = Inr leave"
    using assms get_object_hr [of user st pk leave "''reject''"]
      get_object_manager_of [of user leave st pk "''reject''"] by blast
  with h show "succeeded st user pk leave ''rejected'' ''rejected'' (dispatch st user Reject pk)"
    by (auto simp: dispatch_method reject_def succeeded_def write_defs)
next
  assume "role user = ''manager'' \<and> manager (employee leave) \<noteq> Some (uid user)"
  then have "get_object st user ''reject'' pk =
      Inl (if uid (employee leave) = uid user then PermissionDenied else Http404)"
    using assms by (simp add: get_object_reject_manager_not_of)
  then show "dispatch st user Reject pk =
      (st, Error (if uid (employee leave) = uid user then PermissionDenied else Http404))"
    by (simp add: dispatch_method reject_def)
next
  assume h: "status leave \<in> {''draft'', ''approved_hr'', ''cancelled''}
    \<and> (role user = ''hr''
        \<or> role user = ''manager'' \<and> manager (employee leave) = Some (uid user)
        \<or> role user \<noteq> ''manager'' \<and> role user \<noteq> ''hr''
            \<and> uid (employee leave) = uid user)"
  then have "get_object st user ''reject'' pk = Inr leave"
    using assms get_object_hr [of user st pk leave "''reject''"]
      get_object_manager_of [of user leave st pk "''reject''"]
      get_object_reject_owner [of st pk leave user] by blast
  with h show "dispatch st user Reject pk =
      (st, Detail ''Invalid status or permission for rejection.'' 400)"
    by (simp add: reject_reached_wrong_status)
next
  assume "role user \<noteq> ''manager'' \<and> role user \<noteq> ''hr'' \<and> uid (employee leave) \<noteq> uid user"
  then have "get_object st user ''reject'' pk = Inl Http404"
    using assms by (simp add: get_object_reject_stranger)
  then show "dispatch st user Reject pk = (st, Error Http404)"
    by (simp add: dispatch_method reject_def)
qed

theorem reject_outcomes_witness:
  "succeeded (db_in ''submitted'') mgr 1 (leave_in ''submitted'') ''rejected'' ''rejected''
     (dispatch (db_in ''submitted'') mgr Reject 1)
   \<and> succeeded (db_in ''approved_manager'') hr 1 (leave_in ''approved_manager'') ''rejected''
     ''rejected'' (dispatch (db_in ''approved_manager'') hr Reject 1)
   \<and> dispatch (own_db_in ''submitted'') mgr Reject 2 =
       (own_db_in ''submitted'', Error PermissionDenied)
   \<and> dispatch (db_in ''submitted'') other_mgr Reject 1 = (db_in ''submitted'', Error Http404)
   \<and> dispatch (db_in ''draft'') mgr Reject 1 =
       (db_in ''draft'', Detail ''Invalid status or permission for rejection.'' 400)
   \<and> dispatch (db_in ''cancelled'') emp Reject 1 =
       (db_in ''cancelled'', Detail ''Invalid status or permission for rejection.'' 400)
   \<and> dispatch (db_in ''draft'') other_emp Reject 1 = (db_in ''draft'', Error Http404)"
proof (intro conjI)
  show "succeeded (db_in ''submitted'') mgr 1 (leave_in ''submitted'') ''rejected'' ''rejected''
     (dispatch (db_in ''submitted'') mgr Reject 1)"
    using reject_outcomes [of "db_in ''submitted''" 1 "leave_in ''submitted''" mgr]
    by (simp add: mgr_def emp_def leave_in_def db_in_def)
  show "succeeded (db_in ''approved_manager'') hr 1 (leave_in ''approved_manager'') ''rejected''
     ''rejected'' (dispatch (db_in ''approved_manager'') hr Reject 1)"
    using reject_outcomes [of "db_in ''approved_manager''" 1 "leave_in ''approved_manager''" hr]
    by (simp add: hr_def emp_def leave_in_def db_in_def)
  show "dispatch (own_db_in ''submitted'') mgr Reject 2 =
       (own_db_in ''submitted'', Error PermissionDenied)"
    using reject_outcomes [of "own_db_in ''submitted''" 2 "own_leave_in ''submitted''" mgr]
    by (simp add: mgr_def own_leave_in_def own_db_in_def)
  show "dispatch (db_in ''submitted'') other_mgr Reject 1 = (db_in ''submitted'', Error Http404)"
    using reject_outcomes [of "db_in ''submitted''" 1 "leave_in ''submitted''" other_mgr]
    by (simp add: other_mgr_def emp_def leave_in_def db_in_def)
  show "dispatch (db_in ''draft'') mgr Reject 1 =
       (db_in ''draft'', Detail ''Invalid status or permission for rejection.'' 400)"
    using reject_outcomes [of "db_in ''draft''" 1 "leave_in ''draft''" mgr]
    by (simp add: mgr_def emp_def leave_in_def db_in_def)
  show "dispatch (db_in ''cancelled'') emp Reject 1 =
       (db_in ''cancelled'', Detail ''Invalid status or permission for rejection.'' 400)"
    using reject_outcomes [of "db_in ''cancelled''" 1 "leave_in ''cancelled''" emp]
    by (simp add: emp_def leave_in_def db_in_def)
  show "dispatch (db_in ''draft'') other_emp Reject 1 = (db_in ''draft'', Error Http404)"
    using reject_outcomes [of "db_in ''draft''" 1 "leave_in ''draft''" other_emp]
    by (simp add: other_emp_def emp_def leave_in_def db_in_def)
qed

subsection \<open>Visibility\<close>

lemma filter_rows_Some: "filter_rows P tbl pk = Some l \<longleftrightarrow> tbl pk = Some l \<and> P l"
  by (auto simp: filter_rows_def split: option.splits)

lemma get_queryset_hr: "role p = ''hr'' \<Longrightarrow> get_queryset st p = leaves st"
  by (simp add: get_queryset_def)

lemma get_queryset_manager:
  "role p = ''manager'' \<Longrightarrow>
   get_queryset st p pk = Some l \<longleftrightarrow>
     leaves st pk = Some l \<and> (uid (employee l) = uid p \<or> manager (employee l) = Some (uid p))"
  by (simp add: get_queryset_def filter_rows_Some disj_commute)

lemma get_queryset_other:
  "role p \<noteq> ''hr'' \<Longrightarrow> role p \<noteq> ''manager'' \<Longrightarrow>
   get_queryset st p pk = Some l \<longleftrightarrow> leaves st pk = Some l \<and> uid (employee l) = uid p"
  by (simp add: get_queryset_def filter_rows_Some)

text \<open>
  C9. The requests a principal \<open>p\<close> sees: all of them when \<open>p\<close> has role hr; those owned
  by \<open>p\<close> or by an employee whose manager is \<open>p\<close> when \<open>p\<close> has role manager; exactly those
  owned by \<open>p\<close> when \<open>p\<close> has role employee. So a request of another employee is visible
  only to that employee's manager (with role manager) and to hr.
\<close>

theorem visible_requests:
  "(role p = ''hr'' \<longrightarrow> get_queryset st p = leaves st)
   \<and> (role p = ''manager'' \<longrightarrow>
        (\<forall>pk l. get_queryset st p pk = Some l \<longleftrightarrow>
           leaves st pk = Some l
           \<and> (uid (employee l) = uid p \<or> manager (employee l) = Some (uid p))))
   \<and> (role p = ''employee'' \<longrightarrow>
        (\<forall>pk l. get_queryset st p pk = Some l \<longleftrightarrow>
           leaves st pk = Some l \<and> uid (employee l) = uid p))
   \<and> (\<forall>pk l. get_queryset st p pk = Some l \<and> uid (employee l) \<noteq> uid p \<longrightarrow>
        role p = ''manager'' \<and> manager (employee l) = Some (uid p) \<or> role p = ''hr'')"
proof (intro conjI impI allI)
  assume "role p = ''hr''"
  then show "get_queryset st p = leaves st" by (rule get_queryset_hr)
next
  fix pk l
  assume "role p = ''manager''"
  then show "get_queryset st p pk = Some l \<longleftrightarrow>
    leaves st pk = Some l \<and> (uid (employee l) = uid p \<or> manager (employee l) = Some (uid p))"
    by (rule get_queryset_manager)
next
  fix pk l
  assume "role p = ''employee''"
  then have "role p \<noteq> ''hr''" "role p \<noteq> ''manager''" by simp_all
  then show "get_queryset st p pk = Some l \<longleftrightarrow>
    leaves st pk = Some l \<and> uid (employee l) = uid p"
    by (rule get_queryset_other)
next
  fix pk l
  assume h: "get_queryset st p pk = Some l \<and> uid (employee l) \<noteq> uid p"
  show "role p = ''manager'' \<and> manager (employee l) = Some (uid p) \<or> role p = ''hr''"
  proof (cases "role p = ''hr''")
    case True
    then show ?thesis by simp
  next
    case nhr: False
    show ?thesis
    proof (cases "role p = ''manager''")
      case True
      then show ?thesis using h get_queryset_manager [of p st pk l] by blast
    next
      case False
      then show ?thesis using h nhr get_queryset_other [of p st pk l] by blast
    qed
  qed
qed

theorem visible_requests_witness:
  "get_queryset (db_in ''draft'') hr = leaves (db_in ''draft'')
   \<and> get_queryset (db_in ''draft'') mgr 1 = Some (leave_in ''draft'')
   \<and> get_queryset (db_in ''draft'') emp 1 = Some (leave_in ''draft'')
   \<and> get_queryset (db_in ''draft'') other_emp 1 \<noteq> Some (leave_in ''draft'')
   \<and> get_queryset (db_in ''draft'') other_mgr 1 \<noteq> Some (leave_in ''draft'')"
proof (intro conjI)
  show "get_queryset (db_in ''draft'') hr = leaves (db_in ''draft'')"
    using visible_requests [of hr "db_in ''draft''"] by (simp add: hr_def)
  show "get_queryset (db_in ''draft'') mgr 1 = Some (leave_in ''draft'')"
    using visible_requests [of mgr "db_in ''draft''"]
    by (simp add: mgr_def emp_def leave_in_def db_in_def)
  show "get_queryset (db_in ''draft'') emp 1 = Some (leave_in ''draft'')"
    using visible_requests [of emp "db_in ''draft''"]
    by (simp add: emp_def leave_in_def db_in_def)
  show "get_queryset (db_in ''draft'') other_emp 1 \<noteq> Some (leave_in ''draft'')"
    using visible_requests [of other_emp "db_in ''draft''"]
    by (simp add: other_emp_def emp_def leave_in_def db_in_def)
  show "get_queryset (db_in ''draft'') other_mgr 1 \<noteq> Some (leave_in ''draft'')"
    using visible_requests [of other_mgr "db_in ''draft''"]
    by (simp add: other_mgr_def emp_def leave_in_def db_in_def)
qed

subsection \<open>approve after the manager's approval\<close>

lemma get_object_approve_reaches:
  assumes "leaves st pk = Some leave" and "role user \<noteq> ''hr''"
  shows "get_object st user ''approve'' pk = Inr leave \<longleftrightarrow>
         (if role user = ''manager'' then manager (employee leave) = Some (uid user)
          else uid (employee leave) = uid user)"
  using assms by (auto simp: layer_defs)

text \<open>
  C10. An approve call on a request in \<open>approved_manager\<close> by a caller who is not hr and
  reaches the view's decision fails with 400 "Invalid status for approval." (not with an
  authorization error), and the database is unchanged. The callers without role hr who
  reach the decision are the employee's manager, when the caller's role is manager, and the
  owning employee otherwise.
\<close>

theorem approve_after_manager_needs_hr:
  assumes "leaves st pk = Some leave"
    and "status leave = ''approved_manager''"
    and "role user \<noteq> ''hr''"
  shows "(get_object st user ''approve'' pk = Inr leave \<longrightarrow>
            dispatch st user Approve pk = (st, Detail ''Invalid status for approval.'' 400))
       \<and> (get_object st user ''approve'' pk = Inr leave \<longleftrightarrow>
            (if role user = ''manager'' then manager (employee leave) = Some (uid user)
             else uid (employee leave) = uid user))"
proof
  show "get_object st user ''approve'' pk = Inr leave \<longrightarrow>
      dispatch st user Approve pk = (st, Detail ''Invalid status for approval.'' 400)"
    using assms(2,3) by (simp add: dispatch_method approve_def)
  show "get_object st user ''approve'' pk = Inr leave \<longleftrightarrow>
      (if role user = ''manager'' then manager (employee leave) = Some (uid user)
       else uid (employee leave) = uid user)"
    using assms(1,3) by (rule get_object_approve_reaches)
qed

theorem approve_after_manager_needs_hr_witness:
  "dispatch (db_in ''approved_manager'') emp Approve 1 =
     (db_in ''approved_manager'', Detail ''Invalid status for approval.'' 400)
   \<and> dispatch (db_in ''approved_manager'') mgr Approve 1 =
     (db_in ''approved_manager'', Detail ''Invalid status for approval.'' 400)"
proof
  show "dispatch (db_in ''approved_manager'') emp Approve 1 =
     (db_in ''approved_manager'', Detail ''Invalid status for approval.'' 400)"
    using approve_after_manager_needs_hr
      [of "db_in ''approved_manager''" 1 "leave_in ''approved_manager''" emp]
    by (simp add: emp_def leave_in_def db_in_def)
  show "dispatch (db_in ''approved_manager'') mgr Approve 1 =
     (db_in ''approved_manager'', Detail ''Invalid status for approval.'' 400)"
    using approve_after_manager_needs_hr
      [of "db_in ''approved_manager''" 1 "leave_in ''approved_manager''" mgr]
    by (simp add: mgr_def emp_def leave_in_def db_in_def)
qed

subsection \<open>submit by another principal\<close>

text \<open>
  C7, as claimed, fails: nothing in front of \<open>submit\<close> asks for the owner. The hr user
  of the tests, who does not own the request, submits the employee's draft.
\<close>

theorem submit_by_hr_counterexample:
  "uid hr \<noteq> uid (employee (leave_in ''draft''))
   \<and> leaves (db_in ''draft'') 1 = Some (leave_in ''draft'')
   \<and> status_code (snd (dispatch (db_in ''draft'') hr Submit 1)) = 200
   \<and> leaves (fst (dispatch (db_in ''draft'') hr Submit 1)) 1 = Some (leave_in ''submitted'')"
  by (simp add: dispatch_method submit_def layer_defs write_defs fixture_defs)

text \<open>
  C7, amended. A submit call by a principal who is not the owning employee does not
  succeed when the request is outside that principal's queryset: the answer is 404 and
  the database is unchanged. The access control has no owner check for submit, so a
  caller with role hr, or with role manager who is the owner's manager, moves a draft to
  \<open>submitted\<close>.
\<close>

theorem submit_by_non_owner:
  assumes "leaves st pk = Some leave"
    and "uid (employee leave) \<noteq> uid user"
  shows "(role user \<noteq> ''hr''
            \<and> \<not> (role user = ''manager'' \<and> manager (employee leave) = Some (uid user)) \<longrightarrow>
          dispatch st user Submit pk = (st, Error Http404))
       \<and> ((role user = ''hr''
             \<or> role user = ''manager'' \<and> manager (employee leave) = Some (uid user))
            \<and> status leave = ''draft'' \<longrightarrow>
          succeeded st user pk leave ''submitted'' ''submitted'' (dispatch st user Submit pk))"
proof (intro conjI impI)
  assume "role user \<noteq> ''hr''
    \<and> \<not> (role user = ''manager'' \<and> manager (employee leave) = Some (uid user))"
  then have "get_queryset st user pk = None"
    using assms by (auto simp: get_queryset_def filter_rows_def)
  then show "dispatch st user Submit pk = (st, Error Http404)"
    by (simp add: dispatch_method submit_def get_object_def)
next
  assume h: "(role user = ''hr''
      \<or> role user = ''manager'' \<and> manager (employee leave) = Some (uid user))
    \<and> status leave = ''draft''"
  then have "get_queryset st user pk = Some leave"
    using assms by (auto simp: get_queryset_def filter_rows_def)
  then have "get_object st user ''submit'' pk = Inr leave"
    by (simp add: get_object_def get_permissions_def)
  with h show "succeeded st user pk leave ''submitted'' ''submitted'' (dispatch st user Submit pk)"
    by (simp add: dispatch_method submit_def succeeded_def write_defs)
qed

theorem submit_by_non_owner_witness:
  "dispatch (db_in ''draft'') other_emp Submit 1 = (db_in ''draft'', Error Http404)
   \<and> succeeded (db_in ''draft'') mgr 1 (leave_in ''draft'') ''submitted'' ''submitted''
       (dispatch (db_in ''draft'') mgr Submit 1)"
proof
  show "dispatch (db_in ''draft'') other_emp Submit 1 = (db_in ''draft'', Error Http404)"
    using submit_by_non_owner [of "db_in ''draft''" 1 "leave_in ''draft''" other_emp]
    by (simp add: other_emp_def emp_def leave_in_def db_in_def)
  show "succeeded (db_in ''draft'') mgr 1 (leave_in ''draft'') ''submitted'' ''submitted''
       (dispatch (db_in ''draft'') mgr Submit 1)"
    using submit_by_non_owner [of "db_in ''draft''" 1 "leave_in ''draft''" mgr]
    by (simp add: mgr_def emp_def leave_in_def db_in_def)
qed

subsection \<open>Error kinds\<close>








subsection \<open>cancel\<close>

lemma get_object_owner:
  "leaves st pk = Some leave \<Longrightarrow> uid (employee leave) = uid user \<Longrightarrow>
   get_object st user ''cancel'' pk = Inr leave"
  by (simp add: layer_defs)

lemma get_object_cancel_stranger:
  "leaves st pk = Some leave \<Longrightarrow> uid (employee leave) \<noteq> uid user \<Longrightarrow> role user \<noteq> ''hr'' \<Longrightarrow>
   get_object st user ''cancel'' pk =
     Inl (if role user = ''manager'' \<and> manager (employee leave) = Some (uid user)
          then PermissionDenied else Http404)"
  by (simp add: layer_defs)

text \<open>
  C4, as claimed, fails: the manager of the tests cancels the employee's submitted
  request and is answered 403 by the object-permission check, and another employee is
  answered 404; neither gets the 400 of the view.
\<close>

theorem cancel_by_non_owner_counterexample:
  "uid (employee (leave_in ''submitted'')) \<noteq> uid mgr
   \<and> leaves (db_in ''submitted'') 1 = Some (leave_in ''submitted'')
   \<and> status_code (snd (dispatch (db_in ''submitted'') mgr Cancel 1)) = 403
   \<and> status_code (snd (dispatch (db_in ''submitted'') other_emp Cancel 1)) = 404"
  by (simp add: dispatch_method cancel_def layer_defs fixture_defs)

text \<open>
  C4, amended. A cancel call on a stored request: the owning employee, on a status other
  than \<open>approved_hr\<close>, \<open>rejected\<close> and \<open>cancelled\<close>, moves it to \<open>cancelled\<close> and one
  "cancelled" audit row is appended. Every other cancel call that reaches the view's
  decision, that is the owner on one of those three statuses and a caller with role hr
  who is not the owner on any status, fails with the one 400 "Cannot cancel this
  request.". A caller who is neither the owner nor hr does not reach the view's decision:
  the answer is 403 when the request is in the caller's queryset and 404 when it is not.
\<close>

theorem cancel_outcomes:
  assumes "leaves st pk = Some leave"
  shows "(uid (employee leave) = uid user
            \<and> status leave \<notin> {''approved_hr'', ''rejected'', ''cancelled''} \<longrightarrow>
          succeeded st user pk leave ''cancelled'' ''cancelled'' (dispatch st user Cancel pk))
       \<and> (uid (employee leave) = uid user
            \<and> status leave \<in> {''approved_hr'', ''rejected'', ''cancelled''} \<longrightarrow>
          dispatch st user Cancel pk = (st, Detail ''Cannot cancel this request.'' 400))
       \<and> (uid (employee leave) \<noteq> uid user \<and> role user = ''hr'' \<longrightarrow>
          dispatch st user Cancel pk = (st, Detail ''Cannot cancel this request.'' 400))
       \<and> (uid (employee leave) \<noteq> uid user \<and> role user \<noteq> ''hr'' \<longrightarrow>
          dispatch st user Cancel pk =
            (st, Error (if role user = ''manager'' \<and> manager (employee leave) = Some (uid user)
                        then PermissionDenied else Http404)))"
proof (intro conjI impI)
  assume h: "uid (employee leave) = uid user
    \<and> status leave \<notin> {''approved_hr'', ''rejected'', ''cancelled''}"
  then have "get_object st user ''cancel'' pk = Inr leave"
    using assms by (simp add: get_object_owner)
  with h show "succeeded st user pk leave ''cancelled'' ''cancelled'' (dispatch st user Cancel pk)"
    by (simp add: dispatch_method cancel_def succeeded_def write_defs)
next
  assume h: "uid (employee leave) = uid user
    \<and> status leave \<in> {''approved_hr'', ''rejected'', ''cancelled''}"
  then have "get_object st user ''cancel'' pk = Inr leave"
    using assms by (simp add: get_object_owner)
  with h show "dispatch st user Cancel pk = (st, Detail ''Cannot cancel this request.'' 400)"
    by (auto simp: dispatch_method cancel_def)
next
  assume h: "uid (employee leave) \<noteq> uid user \<and> role user = ''hr''"
  then have "get_object st user ''cancel'' pk = Inr leave"
    using assms by (simp add: get_object_hr)
  with h show "dispatch st user Cancel pk = (st, Detail ''Cannot cancel this request.'' 400)"
    by (simp add: dispatch_method cancel_def)
next
  assume h: "uid (employee leave) \<noteq> uid user \<and> role user \<noteq> ''hr''"
  then have "get_object st user ''cancel'' pk =
      Inl (if role user = ''manager'' \<and> manager (employee leave) = Some (uid user)
           then PermissionDenied else Http404)"
    using assms by (simp add: get_object_cancel_stranger)
  then show "dispatch st user Cancel pk =
      (st, Error (if role user = ''manager'' \<and> manager (employee leave) = Some (uid user)
                  then PermissionDenied else Http404))"
    by (simp add: dispatch_method cancel_def)
qed

theorem cancel_outcomes_witness:
  "succeeded (db_in ''submitted'') emp 1 (leave_in ''submitted'') ''cancelled'' ''cancelled''
     (dispatch (db_in ''submitted'') emp Cancel 1)
   \<and> dispatch (db_in ''approved_hr'') emp Cancel 1 =
       (db_in ''approved_hr'', Detail ''Cannot cancel this request.'' 400)
   \<and> dispatch (db_in ''submitted'') hr Cancel 1 =
       (db_in ''submitted'', Detail ''Cannot cancel this request.'' 400)
   \<and> dispatch (db_in ''submitted'') mgr Cancel 1 = (db_in ''submitted'', Error PermissionDenied)
   \<and> dispatch (db_in ''submitted'') other_emp Cancel 1 = (db_in ''submitted'', Error Http404)"
proof (intro conjI)
  show "succeeded (db_in ''submitted'') emp 1 (leave_in ''submitted'') ''cancelled'' ''cancelled''
     (dispatch (db_in ''submitted'') emp Cancel 1)"
    using cancel_outcomes [of "db_in ''submitted''" 1 "leave_in ''submitted''" emp]
    by (simp add: emp_def leave_in_def db_in_def)
  show "dispatch (db_in ''approved_hr'') emp Cancel 1 =
       (db_in ''approved_hr'', Detail ''Cannot cancel this request.'' 400)"
    using cancel_outcomes [of "db_in ''approved_hr''" 1 "leave_in ''approved_hr''" emp]
    by (simp add: emp_def leave_in_def db_in_def)
  show "dispatch (db_in ''submitted'') hr Cancel 1 =
       (db_in ''submitted'', Detail ''Cannot cancel this request.'' 400)"
    using cancel_outcomes [of "db_in ''submitted''" 1 "leave_in ''submitted''" hr]
    by (simp add: hr_def emp_def leave_in_def db_in_def)
  show "dispatch (db_in ''submitted'') mgr Cancel 1 = (db_in ''submitted'', Error PermissionDenied)"
    using cancel_outcomes [of "db_in ''submitted''" 1 "leave_in ''submitted''" mgr]
    by (simp add: mgr_def emp_def leave_in_def db_in_def)
  show "dispatch (db_in ''submitted'') other_emp Cancel 1 = (db_in ''submitted'', Error Http404)"
    using cancel_outcomes [of "db_in ''submitted''" 1 "leave_in ''submitted''" other_emp]
    by (simp add: other_emp_def emp_def leave_in_def db_in_def)
qed

end
